theory Spec2Isabelle
  imports Main
begin

section \<open>JavaScript values\<close>

text \<open>
  The values that flow through \<^verbatim>\<open>src/App.js\<close>: the four \<^verbatim>\<open>useState\<close> cells and the bodies
  that axios hands over. Strings are ASCII text. The program never computes
  with a number, it only tests it for truthiness and turns it into text, so a number is
  represented by its ECMAScript decimal text (the result of \<^verbatim>\<open>Number::toString\<close>, for instance
  \<^verbatim>\<open>0.23\<close>, \<^verbatim>\<open>0\<close>, \<^verbatim>\<open>NaN\<close>); both zeros have the text \<^verbatim>\<open>0\<close>. An object is the list of
  its own properties in creation order, with distinct keys.
\<close>

datatype jsval =
    Undefined
  | Null
  | Bool bool
  | Num string
  | Str string
  | Arr "jsval list"
  | Obj "(string \<times> jsval) list"

text \<open>ToBoolean: the falsy values are undefined, null, false, 0, NaN and the empty string.\<close>

fun truthy :: "jsval \<Rightarrow> bool" where
  "truthy Undefined = False"
| "truthy Null = False"
| "truthy (Bool b) = b"
| "truthy (Num t) = (t \<noteq> ''0'' \<and> t \<noteq> ''NaN'')"
| "truthy (Str s) = (s \<noteq> [])"
| "truthy (Arr xs) = True"
| "truthy (Obj kvs) = True"

text \<open>\<^verbatim>\<open>a || b\<close> on values.\<close>

definition js_or :: "jsval \<Rightarrow> jsval \<Rightarrow> jsval" where
  "js_or a b = (if truthy a then a else b)"

datatype js_error = TypeError | InvariantViolation

text \<open>
  \<^verbatim>\<open>v.name\<close> for the property names that App.js reads (\<^verbatim>\<open>error\<close>, \<^verbatim>\<open>analysis\<close>,
  \<^verbatim>\<open>risk_category\<close>, \<^verbatim>\<open>metrics\<close>, \<^verbatim>\<open>plot\<close>): none of them is a built-in property of a string,
  an array, a number or a prototype, so only an object's own properties answer. Reading a
  property of undefined or null throws a TypeError.
\<close>

fun get_prop :: "jsval \<Rightarrow> string \<Rightarrow> js_error + jsval" where
  "get_prop Undefined k = Inl TypeError"
| "get_prop Null k = Inl TypeError"
| "get_prop (Obj kvs) k = Inr (case map_of kvs k of None \<Rightarrow> Undefined | Some v \<Rightarrow> v)"
| "get_prop v k = Inr Undefined"

text \<open>\<^verbatim>\<open>v?.name\<close>: undefined when \<^verbatim>\<open>v\<close> is undefined or null, the property otherwise.\<close>

fun opt_prop :: "jsval \<Rightarrow> string \<Rightarrow> jsval" where
  "opt_prop (Obj kvs) k = (case map_of kvs k of None \<Rightarrow> Undefined | Some v \<Rightarrow> v)"
| "opt_prop v k = Undefined"

section \<open>The component state and its setters\<close>

text \<open>The four \<^verbatim>\<open>useState\<close> cells of \<^verbatim>\<open>App\<close> (lines 6 to 9).\<close>

record app_state =
  ticker :: string
  analysis :: jsval
  error :: jsval
  loading :: bool

definition initial_state :: app_state where
  "initial_state = \<lparr>ticker = [], analysis = Null, error = Null, loading = False\<rparr>"

text \<open>
  What a handler does, in program order: a call of a state setter, or the call
  \<^verbatim>\<open>axios.get(url)\<close>. The call site passes the URL alone, so the request configuration
  (query parameters, headers, body) is absent.
\<close>

record request_config =
  params :: "(string \<times> string) list"
  headers :: "(string \<times> string) list"
  body :: "jsval"

datatype effect =
    SetTicker string
  | SetAnalysis jsval
  | SetError jsval
  | SetLoading bool
  | AxiosGet string "request_config option"

fun apply_effect :: "app_state \<Rightarrow> effect \<Rightarrow> app_state" where
  "apply_effect s (SetTicker v) = s\<lparr>ticker := v\<rparr>"
| "apply_effect s (SetAnalysis v) = s\<lparr>analysis := v\<rparr>"
| "apply_effect s (SetError v) = s\<lparr>error := v\<rparr>"
| "apply_effect s (SetLoading b) = s\<lparr>loading := b\<rparr>"
| "apply_effect s (AxiosGet url cfg) = s"

definition exec :: "app_state \<Rightarrow> effect list \<Rightarrow> app_state" where
  "exec s es = foldl apply_effect s es"

text \<open>The state after each effect of a trace, in order.\<close>

fun states_along :: "app_state \<Rightarrow> effect list \<Rightarrow> app_state list" where
  "states_along s [] = []"
| "states_along s (e # es) = apply_effect s e # states_along (apply_effect s e) es"

fun is_request :: "effect \<Rightarrow> bool" where
  "is_request (AxiosGet url cfg) = True"
| "is_request e = False"

fun sets_loading :: "effect \<Rightarrow> bool" where
  "sets_loading (SetLoading b) = True"
| "sets_loading e = False"

fun sets_error :: "effect \<Rightarrow> bool" where
  "sets_error (SetError v) = True"
| "sets_error e = False"

section \<open>The network and axios\<close>

text \<open>
  What the transport does with a request: it never answers, it fails without a response,
  or it delivers a response with a status and a body. The body is what axios exposes as
  \<^verbatim>\<open>response.data\<close>: the parsed JSON value, or the raw text as a string when the text is
  not JSON.
\<close>

datatype transport = NoAnswer | NetworkError | HttpResponse nat jsval

record response =
  status :: nat
  data :: jsval

text \<open>
  How the promise of \<^verbatim>\<open>axios.get\<close> settles: fulfilled with the response when the status
  is 2xx (the default \<^verbatim>\<open>validateStatus\<close>), rejected with an error whose \<^verbatim>\<open>response\<close> field is
  the response otherwise, and rejected with an error without \<^verbatim>\<open>response\<close> when there was
  none.
\<close>

datatype settled = Fulfilled response | Rejected "response option"

fun axios_get :: "transport \<Rightarrow> settled option" where
  "axios_get NoAnswer = None"
| "axios_get NetworkError = Some (Rejected None)"
| "axios_get (HttpResponse st d) =
     (if 200 \<le> st \<and> st < 300 then Some (Fulfilled \<lparr>status = st, data = d\<rparr>)
      else Some (Rejected (Some \<lparr>status = st, data = d\<rparr>)))"

section \<open>handleAnalyze\<close>

definition validation_message :: string where
  "validation_message = ''Please enter a stock ticker.''"

definition fallback_message :: string where
  "fallback_message = ''An error occurred.''"

definition analyze_url :: "string \<Rightarrow> string" where
  "analyze_url t = ''http://127.0.0.1:8000/analyze/'' @ t"

text \<open>
  Lines 12 to 21, up to the \<^verbatim>\<open>await\<close>: the effects before the handler returns or suspends,
  and the URL it waits on when it suspends.
\<close>

definition handleAnalyze_enter :: "string \<Rightarrow> effect list \<times> string option" where
  "handleAnalyze_enter t =
     (if \<not> truthy (Str t) then ([SetError (Str validation_message)], None)
      else ([SetError Null, SetLoading True, AxiosGet (analyze_url t) None],
            Some (analyze_url t)))"

text \<open>\<^verbatim>\<open>err.response?.data?.error\<close> (line 24).\<close>

fun error_field :: "response option \<Rightarrow> jsval" where
  "error_field None = Undefined"
| "error_field (Some r) = opt_prop (data r) ''error''"

text \<open>Lines 22 to 27: what runs once the promise has settled.\<close>

fun handleAnalyze_resume :: "settled \<Rightarrow> effect list" where
  "handleAnalyze_resume (Fulfilled r) = [SetAnalysis (data r), SetLoading False]"
| "handleAnalyze_resume (Rejected e) =
     [SetError (js_or (error_field e) (Str fallback_message)), SetLoading False]"

text \<open>
  One invocation from entry to its end, against a network that maps the requested URL
  to what the transport does. The handler reads \<^verbatim>\<open>ticker\<close> from the render it closes over.
\<close>

definition handleAnalyze :: "(string \<Rightarrow> transport) \<Rightarrow> string \<Rightarrow> effect list" where
  "handleAnalyze net t =
     (case handleAnalyze_enter t of
        (es, None) \<Rightarrow> es
      | (es, Some url) \<Rightarrow>
          (case axios_get (net url) of
             None \<Rightarrow> es
           | Some r \<Rightarrow> es @ handleAnalyze_resume r))"

definition analyze :: "(string \<Rightarrow> transport) \<Rightarrow> app_state \<Rightarrow> app_state" where
  "analyze net s = exec s (handleAnalyze net (ticker s))"

section \<open>Built-in operations used by the view\<close>

definition bind_err :: "'e + 'a \<Rightarrow> ('a \<Rightarrow> 'e + 'b) \<Rightarrow> 'e + 'b" where
  "bind_err m f = (case m of Inl e \<Rightarrow> Inl e | Inr x \<Rightarrow> f x)"

text \<open>\<^verbatim>\<open>String.prototype.toUpperCase\<close> on ASCII text.\<close>

definition upper_char :: "char \<Rightarrow> char" where
  "upper_char c =
     (case map_of (zip ''abcdefghijklmnopqrstuvwxyz'' ''ABCDEFGHIJKLMNOPQRSTUVWXYZ'') c of
        None \<Rightarrow> c
      | Some u \<Rightarrow> u)"

definition toUpperCase :: "string \<Rightarrow> string" where
  "toUpperCase s = map upper_char s"

definition digit_char :: "nat \<Rightarrow> char" where
  "digit_char d = ''0123456789'' ! d"

fun string_of_nat :: "nat \<Rightarrow> string" where
  "string_of_nat n =
     (if n < 10 then [digit_char n] else string_of_nat (n div 10) @ [digit_char (n mod 10)])"

definition is_digit :: "char \<Rightarrow> bool" where
  "is_digit c = (let n = (of_char c :: nat) in 48 \<le> n \<and> n \<le> 57)"

definition nat_of_digits :: "string \<Rightarrow> nat" where
  "nat_of_digits s = foldl (\<lambda>acc c. 10 * acc + ((of_char c :: nat) - 48)) 0 s"

text \<open>
  A property key is an array index when it is the canonical decimal text of an integer
  below \<open>2^32 - 1\<close>.
\<close>

definition array_index :: "string \<Rightarrow> nat option" where
  "array_index k =
     (if k \<noteq> [] \<and> list_all is_digit k \<and> string_of_nat (nat_of_digits k) = k
         \<and> nat_of_digits k < 4294967295
      then Some (nat_of_digits k) else None)"

definition is_index_key :: "string \<times> 'a \<Rightarrow> bool" where
  "is_index_key kv = (array_index (fst kv) \<noteq> None)"

definition index_of_key :: "string \<times> 'a \<Rightarrow> nat" where
  "index_of_key kv = (case array_index (fst kv) of None \<Rightarrow> 0 | Some n \<Rightarrow> n)"

text \<open>
  The order in which an object's own properties are enumerated: array-index keys first,
  ascending, then the other keys in creation order.
\<close>

definition own_entries :: "(string \<times> 'a) list \<Rightarrow> (string \<times> 'a) list" where
  "own_entries kvs =
     sort_key index_of_key (filter is_index_key kvs) @ filter (\<lambda>kv. \<not> is_index_key kv) kvs"

text \<open>\<^verbatim>\<open>Object.entries(v)\<close>.\<close>

fun object_entries :: "jsval \<Rightarrow> js_error + (string \<times> jsval) list" where
  "object_entries Undefined = Inl TypeError"
| "object_entries Null = Inl TypeError"
| "object_entries (Bool b) = Inr []"
| "object_entries (Num t) = Inr []"
| "object_entries (Str s) = Inr (zip (map string_of_nat [0..<length s]) (map (\<lambda>c. Str [c]) s))"
| "object_entries (Arr xs) = Inr (zip (map string_of_nat [0..<length xs]) xs)"
| "object_entries (Obj kvs) = Inr (own_entries kvs)"

fun join :: "string \<Rightarrow> string list \<Rightarrow> string" where
  "join sep [] = []"
| "join sep [x] = x"
| "join sep (x # y # ys) = x @ sep @ join sep (y # ys)"

text \<open>ToString, as a template literal applies it to \<^verbatim>\<open>${v}\<close>.\<close>

function (sequential) to_string :: "jsval \<Rightarrow> string"
  and to_string_elements :: "jsval list \<Rightarrow> string list" where
  "to_string Undefined = ''undefined''"
| "to_string Null = ''null''"
| "to_string (Bool b) = (if b then ''true'' else ''false'')"
| "to_string (Num t) = t"
| "to_string (Str s) = s"
| "to_string (Arr xs) = join '','' (to_string_elements xs)"
| "to_string (Obj kvs) = ''[object Object]''"
| "to_string_elements [] = []"
| "to_string_elements (Undefined # xs) = [] # to_string_elements xs"
| "to_string_elements (Null # xs) = [] # to_string_elements xs"
| "to_string_elements (x # xs) = to_string x # to_string_elements xs"
  by pat_completeness auto
termination
  by (relation "measure (case_sum size (size_list size))") auto

definition hex_digit :: "nat \<Rightarrow> char" where
  "hex_digit d = ''0123456789abcdef'' ! d"

text \<open>QuoteJSONString, one character at a time.\<close>

definition quote_char :: "char \<Rightarrow> string" where
  "quote_char c =
     (let n = (of_char c :: nat) in
      if n = 8 then [CHR 0x5C, CHR ''b'']
      else if n = 9 then [CHR 0x5C, CHR ''t'']
      else if n = 10 then [CHR 0x5C, CHR ''n'']
      else if n = 12 then [CHR 0x5C, CHR ''f'']
      else if n = 13 then [CHR 0x5C, CHR ''r'']
      else if n = 34 then [CHR 0x5C, CHR 0x22]
      else if n = 92 then [CHR 0x5C, CHR 0x5C]
      else if n < 32 then [CHR 0x5C, CHR ''u'', CHR ''0'', CHR ''0'', hex_digit (n div 16), hex_digit (n mod 16)]
      else [c])"

definition quote_json :: "string \<Rightarrow> string" where
  "quote_json s = [CHR 0x22] @ concat (map quote_char s) @ [CHR 0x22]"

definition gap :: string where
  "gap = ''  ''"

text \<open>
  The brackets around the serialized parts of an array or an object, at indentation
  \<open>ind\<close>, with the two-space gap of \<^verbatim>\<open>JSON.stringify(v, null, 2)\<close>.
\<close>

definition wrap :: "string \<Rightarrow> string \<Rightarrow> string \<Rightarrow> string list \<Rightarrow> string" where
  "wrap opening closing ind parts =
     (if parts = [] then opening @ closing
      else opening @ [CHR 0x0A] @ ind @ gap
           @ join ('','' @ [CHR 0x0A] @ ind @ gap) parts
           @ [CHR 0x0A] @ ind @ closing)"

text \<open>
  \<^verbatim>\<open>JSON.stringify(v, null, 2)\<close> at indentation \<open>ind\<close>; the result is absent for
  undefined. Inside an array undefined is written \<^verbatim>\<open>null\<close>, inside an object the property
  is left out. The members of an object are serialized as stored and put into enumeration
  order afterwards, which gives the same text as enumerating first.
\<close>

function (sequential) serialize :: "string \<Rightarrow> jsval \<Rightarrow> string option"
  and serialize_elements :: "string \<Rightarrow> jsval list \<Rightarrow> string list"
  and serialize_members :: "string \<Rightarrow> (string \<times> jsval) list \<Rightarrow> (string \<times> string) list" where
  "serialize ind Undefined = None"
| "serialize ind Null = Some ''null''"
| "serialize ind (Bool b) = Some (if b then ''true'' else ''false'')"
| "serialize ind (Num t) =
     Some (if t = ''NaN'' \<or> t = ''Infinity'' \<or> t = ''-Infinity'' then ''null'' else t)"
| "serialize ind (Str s) = Some (quote_json s)"
| "serialize ind (Arr xs) = Some (wrap ''['' '']'' ind (serialize_elements (ind @ gap) xs))"
| "serialize ind (Obj kvs) =
     Some (wrap ''{'' ''}'' ind (map snd (own_entries (serialize_members (ind @ gap) kvs))))"
| "serialize_elements ind [] = []"
| "serialize_elements ind (x # xs) =
     (case serialize ind x of None \<Rightarrow> ''null'' | Some t \<Rightarrow> t) # serialize_elements ind xs"
| "serialize_members ind [] = []"
| "serialize_members ind ((k, v) # kvs) =
     (case serialize ind v of
        None \<Rightarrow> serialize_members ind kvs
      | Some t \<Rightarrow> (k, quote_json k @ '': '' @ t) # serialize_members ind kvs)"
  by pat_completeness auto
termination
  by (relation "measure (case_sum (\<lambda>p. size (snd p))
        (case_sum (\<lambda>p. size_list size (snd p))
                  (\<lambda>p. size_list (size_prod (\<lambda>_. 0) size) (snd p))))") auto

definition json_stringify :: "jsval \<Rightarrow> jsval" where
  "json_stringify v = (case serialize [] v of None \<Rightarrow> Undefined | Some t \<Rightarrow> Str t)"

section \<open>The view\<close>

text \<open>
  What \<^verbatim>\<open>App\<close> returns: a tree of elements whose children are literal text, the value of
  an embedded expression, an element, or the array of elements that \<^verbatim>\<open>map\<close> produced.
\<close>

datatype handler = SetTickerFromInput | HandleAnalyze

datatype prop_value =
    PStr string
  | PBool bool
  | PHandler handler
  | PStyle "(string \<times> string) list"

datatype jsx =
    Lit string
  | Val jsval
  | Elem string "(string \<times> prop_value) list" "jsx list"
  | Frag "jsx list"

text \<open>Line 43: \<^verbatim>\<open>error && <p className="error">{error}</p>\<close>.\<close>

definition error_view :: "jsval \<Rightarrow> jsx" where
  "error_view e =
     (if truthy e then Elem ''p'' [(''className'', PStr ''error'')] [Val e] else Val e)"

text \<open>Lines 50 to 54: one list item for each entry.\<close>

definition metric_item :: "string \<times> jsval \<Rightarrow> jsx" where
  "metric_item kv = Elem ''li'' [(''key'', PStr (fst kv))] [Val (Str (fst kv)), Lit '': '', Val (snd kv)]"

text \<open>
  Lines 44 to 65: \<^verbatim>\<open>analysis && (<div> ... </div>)\<close>. The embedded expressions are
  evaluated in source order, and the first one that throws ends the render.
\<close>

definition analysis_view :: "string \<Rightarrow> jsval \<Rightarrow> js_error + jsx" where
  "analysis_view t a =
     (if \<not> truthy a then Inr (Val a)
      else
        bind_err (bind_err (get_prop a ''analysis'') (\<lambda>x. get_prop x ''risk_category'')) (\<lambda>risk.
        bind_err (bind_err (get_prop a ''metrics'') object_entries) (\<lambda>entries.
        bind_err (get_prop a ''analysis'') (\<lambda>an.
        bind_err (get_prop a ''plot'') (\<lambda>plot.
          Inr (Elem ''div'' []
            [Elem ''h2'' [] [Lit ''Risk Analysis for '', Val (Str (toUpperCase t))],
             Elem ''p'' [] [Lit ''Risk Category: '', Val risk],
             Elem ''h3'' [] [Lit ''Metrics:''],
             Elem ''ul'' [] [Frag (map metric_item entries)],
             Elem ''h3'' [] [Lit ''Analysis:''],
             Elem ''pre'' [] [Val (json_stringify an)],
             Elem ''h3'' [] [Lit ''Plot:''],
             Elem ''img''
               [(''src'', PStr (''data:image/png;base64,'' @ to_string plot)),
                (''alt'', PStr ''Risk Analysis Plot''),
                (''style'', PStyle [(''width'', ''100%''), (''height'', ''auto'')])]
               []]))))))"

text \<open>Lines 30 to 68.\<close>

definition App :: "app_state \<Rightarrow> js_error + jsx" where
  "App s =
     bind_err (analysis_view (ticker s) (analysis s)) (\<lambda>shown.
       Inr (Elem ''div'' [(''className'', PStr ''App'')]
         [Elem ''header'' [(''className'', PStr ''App-header'')]
           [Elem ''h1'' [] [Lit ''Stock Risk Analyzer''],
            Elem ''input''
              [(''type'', PStr ''text''),
               (''placeholder'', PStr ''Enter stock ticker (e.g., RELIANCE.NS)''),
               (''value'', PStr (ticker s)),
               (''onChange'', PHandler SetTickerFromInput)]
              [],
            Elem ''button''
              [(''onClick'', PHandler HandleAnalyze), (''disabled'', PBool (loading s))]
              [Val (Str (if loading s then ''Analyzing...'' else ''Analyze''))],
            error_view (error s),
            shown]]))"

subsection \<open>What React makes of the tree\<close>

datatype node = Text string | Element string "(string \<times> prop_value) list" "node list"

text \<open>
  A value as a child: undefined, null and booleans show nothing, strings and numbers show
  as text, an array shows its elements, and an object is refused.
\<close>

function (sequential) react_child :: "jsval \<Rightarrow> js_error + node list"
  and react_children :: "jsval list \<Rightarrow> js_error + node list" where
  "react_child Undefined = Inr []"
| "react_child Null = Inr []"
| "react_child (Bool b) = Inr []"
| "react_child (Num t) = Inr [Text t]"
| "react_child (Str s) = Inr [Text s]"
| "react_child (Arr xs) = react_children xs"
| "react_child (Obj kvs) = Inl InvariantViolation"
| "react_children [] = Inr []"
| "react_children (x # xs) =
     bind_err (react_child x) (\<lambda>ns. bind_err (react_children xs) (\<lambda>ms. Inr (ns @ ms)))"
  by pat_completeness auto
termination
  by (relation "measure (case_sum size (size_list size))") auto

function (sequential) render_dom :: "jsx \<Rightarrow> js_error + node list"
  and render_all :: "jsx list \<Rightarrow> js_error + node list" where
  "render_dom (Lit s) = Inr [Text s]"
| "render_dom (Val v) = react_child v"
| "render_dom (Elem tag props cs) = bind_err (render_all cs) (\<lambda>ns. Inr [Element tag props ns])"
| "render_dom (Frag cs) = render_all cs"
| "render_all [] = Inr []"
| "render_all (c # cs) =
     bind_err (render_dom c) (\<lambda>ns. bind_err (render_all cs) (\<lambda>ms. Inr (ns @ ms)))"
  by pat_completeness auto
termination
  by (relation "measure (case_sum size (size_list size))") auto

definition render :: "app_state \<Rightarrow> js_error + node list" where
  "render s = bind_err (App s) render_dom"

text \<open>Reading the rendered tree: the text inside a node, and the elements with a tag.\<close>

function (sequential) text_content :: "node \<Rightarrow> string"
  and text_contents :: "node list \<Rightarrow> string" where
  "text_content (Text s) = s"
| "text_content (Element tag props ns) = text_contents ns"
| "text_contents [] = []"
| "text_contents (n # ns) = text_content n @ text_contents ns"
  by pat_completeness auto
termination
  by (relation "measure (case_sum size (size_list size))") auto

function (sequential) elements_by_tag :: "string \<Rightarrow> node \<Rightarrow> node list"
  and elements_by_tag_in :: "string \<Rightarrow> node list \<Rightarrow> node list" where
  "elements_by_tag tag (Text s) = []"
| "elements_by_tag tag (Element tag' props ns) =
     (if tag' = tag then [Element tag' props ns] else []) @ elements_by_tag_in tag ns"
| "elements_by_tag_in tag [] = []"
| "elements_by_tag_in tag (n # ns) = elements_by_tag tag n @ elements_by_tag_in tag ns"
  by pat_completeness auto
termination
  by (relation "measure (case_sum (\<lambda>p. size (snd p)) (\<lambda>p. size_list size (snd p)))") auto

fun prop_of :: "string \<Rightarrow> node \<Rightarrow> prop_value option" where
  "prop_of k (Text s) = None"
| "prop_of k (Element tag props ns) = map_of props k"

section \<open>The page as a state machine\<close>

text \<open>
  The page between events: the state, and the URL of the request in flight if there is
  one. The events are an edit of the input (line 38), a click on the button, which does
  nothing while the button is disabled (line 40), and the settling of the request in
  flight.
\<close>

datatype ui_event = Change string | Click | Settle settled

fun ui_step :: "app_state \<times> string option \<Rightarrow> ui_event \<Rightarrow> app_state \<times> string option" where
  "ui_step (s, p) (Change v) = (apply_effect s (SetTicker v), p)"
| "ui_step (s, p) Click =
     (if loading s then (s, p)
      else (case handleAnalyze_enter (ticker s) of
              (es, None) \<Rightarrow> (exec s es, p)
            | (es, Some url) \<Rightarrow> (exec s es, Some url)))"
| "ui_step (s, None) (Settle r) = (s, None)"
| "ui_step (s, Some url) (Settle r) = (exec s (handleAnalyze_resume r), None)"

definition ui_run :: "ui_event list \<Rightarrow> app_state \<times> string option" where
  "ui_run evs = foldl ui_step (initial_state, None) evs"

section \<open>Notions of the specification\<close>

text \<open>
  The specification speaks of an empty or whitespace-only ticker: a text made of
  white space only (space, tab, line feed, vertical tab, form feed, carriage return).
\<close>

definition spec_blank_ticker :: "string \<Rightarrow> bool" where
  "spec_blank_ticker t = list_all (\<lambda>c. c \<in> set [CHR 0x20, CHR 0x09, CHR 0x0A, CHR 0x0B, CHR 0x0C, CHR 0x0D]) t"

text \<open>
  The specification's expected success body: an object with \<^verbatim>\<open>metrics\<close>, an object whose
  values are numbers or strings, \<^verbatim>\<open>analysis\<close>, an object with a string \<^verbatim>\<open>risk_category\<close>,
  and \<^verbatim>\<open>plot\<close>, a string.
\<close>

fun number_or_string :: "jsval \<Rightarrow> bool" where
  "number_or_string (Num t) = True"
| "number_or_string (Str s) = True"
| "number_or_string v = False"

fun is_string :: "jsval \<Rightarrow> bool" where
  "is_string (Str s) = True"
| "is_string v = False"

fun spec_expected_shape :: "jsval \<Rightarrow> bool" where
  "spec_expected_shape (Obj kvs) =
     (case (map_of kvs ''metrics'', map_of kvs ''analysis'', map_of kvs ''plot'') of
        (Some (Obj ms), Some (Obj an), Some (Str p)) \<Rightarrow>
          list_all (\<lambda>kv. number_or_string (snd kv)) ms
          \<and> is_string (opt_prop (Obj an) ''risk_category'')
      | _ \<Rightarrow> False)"
| "spec_expected_shape v = False"

text \<open>
  The specification's example: the success body
  \<^verbatim>\<open>{ metrics: {"volatility": 0.23}, analysis: {risk_category: "High"}, plot: "iVBORw0KG..." }\<close>
  received for the ticker \<^verbatim>\<open>RELIANCE.NS\<close>, typed into the fresh page.
\<close>

definition example_body :: jsval where
  "example_body =
     Obj [(''metrics'', Obj [(''volatility'', Num ''0.23'')]),
          (''analysis'', Obj [(''risk_category'', Str ''High'')]),
          (''plot'', Str ''iVBORw0KG...'')]"

definition example_state :: app_state where
  "example_state =
     analyze (\<lambda>url. HttpResponse 200 example_body)
       (apply_effect initial_state (SetTicker ''RELIANCE.NS''))"

section \<open>Evaluation rules and auxiliary facts\<close>

lemmas handler_defs = handleAnalyze_def handleAnalyze_enter_def analyze_def exec_def
  analyze_url_def validation_message_def fallback_message_def

lemmas entries_defs = array_index_def is_index_key_def index_of_key_def own_entries_def
  is_digit_def nat_of_digits_def digit_char_def

lemmas view_defs = render_def App_def analysis_view_def error_view_def metric_item_def
  bind_err_def json_stringify_def toUpperCase_def upper_char_def wrap_def gap_def
  quote_json_def quote_char_def hex_digit_def

lemma handleAnalyze_nonempty:
  "t \<noteq> [] \<Longrightarrow> handleAnalyze net t =
     [SetError Null, SetLoading True, AxiosGet (''http://127.0.0.1:8000/analyze/'' @ t) None]
     @ (case axios_get (net (''http://127.0.0.1:8000/analyze/'' @ t)) of
          None \<Rightarrow> [] | Some r \<Rightarrow> handleAnalyze_resume r)"
  by (simp add: handler_defs split: option.splits)

lemma resume_no_request: "filter is_request (handleAnalyze_resume r) = []"
  by (cases r) simp_all

lemma resume_loading: "loading (exec s (handleAnalyze_resume r)) = False"
  by (cases r) (simp_all add: exec_def)

lemma enter_loading:
  "\<not> loading s \<Longrightarrow> handleAnalyze_enter (ticker s) = (es, w) \<Longrightarrow>
     loading (exec s es) = (w \<noteq> None)"
  by (auto simp: handleAnalyze_enter_def exec_def split: if_splits)

text \<open>The analysis after one invocation, by cases on how it went.\<close>

lemma analysis_after:
  "analysis (analyze net s) =
     (if ticker s = [] then analysis s
      else case axios_get (net (analyze_url (ticker s))) of
             Some (Fulfilled r) \<Rightarrow> data r
           | _ \<Rightarrow> analysis s)"
  by (simp add: handler_defs split: option.splits settled.splits)

text \<open>Every event of the page keeps the flag and the request in flight in step.\<close>

lemma ui_step_invariant:
  "loading (fst c) = (snd c \<noteq> None) \<Longrightarrow>
     loading (fst (ui_step c ev)) = (snd (ui_step c ev) \<noteq> None)"
proof (cases c)
  case (Pair s p)
  assume inv: "loading (fst c) = (snd c \<noteq> None)"
  show ?thesis
  proof (cases ev)
    case (Change v)
    with Pair inv show ?thesis by simp
  next
    case Click
    show ?thesis
    proof (cases "loading s")
      case True
      with Pair inv Click show ?thesis by simp
    next
      case False
      obtain es w where e: "handleAnalyze_enter (ticker s) = (es, w)"
        by (cases "handleAnalyze_enter (ticker s)")
      from False e have "loading (exec s es) = (w \<noteq> None)" by (rule enter_loading)
      with Pair inv Click False e show ?thesis by (cases w) auto
    qed
  next
    case (Settle r)
    with Pair inv show ?thesis by (cases p) (simp_all add: resume_loading)
  qed
qed

lemma ui_run_invariant:
  "loading (fst c) = (snd c \<noteq> None) \<Longrightarrow>
     loading (fst (foldl ui_step c evs)) = (snd (foldl ui_step c evs) \<noteq> None)"
proof (induction evs arbitrary: c)
  case Nil
  then show ?case by simp
next
  case (Cons ev evs)
  from Cons.prems have "loading (fst (ui_step c ev)) = (snd (ui_step c ev) \<noteq> None)"
    by (rule ui_step_invariant)
  then show ?case using Cons.IH by simp
qed

text \<open>
  Enumeration keeps creation order when no key is an array index, and puts the array
  indices first otherwise.
\<close>

lemma entries_in_creation_order:
  assumes "list_all (\<lambda>kv. \<not> is_index_key kv) kvs"
  shows "object_entries (Obj kvs) = Inr kvs"
proof -
  from assms have "filter is_index_key kvs = []"
    and "filter (\<lambda>kv. \<not> is_index_key kv) kvs = kvs"
    by (simp_all add: list_all_iff)
  then show ?thesis by (simp add: own_entries_def)
qed

lemma entries_index_keys_first:
  "object_entries (Obj [(''beta'', Num ''1''), (''2'', Num ''2''), (''1'', Num ''3'')])
     = Inr [(''1'', Num ''3''), (''2'', Num ''2''), (''beta'', Num ''1'')]"
  by (simp add: entries_defs)

text \<open>A stored body without \<^verbatim>\<open>analysis\<close> makes the next render throw.\<close>

lemma render_unexpected_body:
  "render \<lparr>ticker = ''AAPL'', analysis = Obj [(''error'', Str ''Ticker not found'')],
           error = Null, loading = False\<rparr> = Inl TypeError"
  by (simp add: view_defs)

lemma example_state_eq:
  "example_state =
     \<lparr>ticker = ''RELIANCE.NS'', analysis = example_body, error = Null, loading = False\<rparr>"
  by (simp add: example_state_def handler_defs initial_state_def)

text \<open>The whole page for the specification's example.\<close>

lemma example_render:
  "render example_state =
     Inr [Element ''div'' [(''className'', PStr ''App'')]
           [Element ''header'' [(''className'', PStr ''App-header'')]
             [Element ''h1'' [] [Text ''Stock Risk Analyzer''],
              Element ''input''
               [(''type'', PStr ''text''),
                (''placeholder'', PStr ''Enter stock ticker (e.g., RELIANCE.NS)''),
                (''value'', PStr ''RELIANCE.NS''),
                (''onChange'', PHandler SetTickerFromInput)]
               [],
              Element ''button''
               [(''onClick'', PHandler HandleAnalyze), (''disabled'', PBool False)]
               [Text ''Analyze''],
              Element ''div'' []
               [Element ''h2'' [] [Text ''Risk Analysis for '', Text ''RELIANCE.NS''],
                Element ''p'' [] [Text ''Risk Category: '', Text ''High''],
                Element ''h3'' [] [Text ''Metrics:''],
                Element ''ul'' []
                 [Element ''li'' [(''key'', PStr ''volatility'')]
                   [Text ''volatility'', Text '': '', Text ''0.23'']],
                Element ''h3'' [] [Text ''Analysis:''],
                Element ''pre'' []
                 [Text (''{'' @ [CHR 0x0A] @ ''  '' @ [CHR 0x22] @ ''risk_category'' @ [CHR 0x22]
                        @ '': '' @ [CHR 0x22] @ ''High'' @ [CHR 0x22] @ [CHR 0x0A] @ ''}'')],
                Element ''h3'' [] [Text ''Plot:''],
                Element ''img''
                 [(''src'', PStr ''data:image/png;base64,iVBORw0KG...''),
                  (''alt'', PStr ''Risk Analysis Plot''),
                  (''style'', PStyle [(''width'', ''100%''), (''height'', ''auto'')])]
                 []]]]]"
  by (simp add: example_state_eq example_body_def view_defs entries_defs)

section \<open>The validation path\<close>

text \<open>
  Claim C1, amended. The validation path is taken for the empty ticker and for no other:
  the invocation then consists of the single call that sets \<^verbatim>\<open>error\<close> to
  \<^verbatim>\<open>Please enter a stock ticker.\<close>, with no request and no call of \<^verbatim>\<open>setLoading\<close>. A
  ticker of white space is not empty and is submitted like any other.
\<close>

theorem validation_only_on_empty_ticker:
  "(handleAnalyze net t = [SetError (Str ''Please enter a stock ticker.'')]) = (t = [])
   \<and> filter is_request (handleAnalyze net []) = []
   \<and> filter sets_loading (handleAnalyze net []) = []"
  by (cases "axios_get (net (analyze_url t))") (auto simp: handler_defs)

text \<open>
  As stated for whitespace-only tickers the claim fails: for the ticker of one space the
  handler clears the error, sets \<^verbatim>\<open>loading\<close> and sends the request.
\<close>

theorem blank_ticker_is_submitted:
  "spec_blank_ticker '' '' \<and>
   handleAnalyze (\<lambda>url. NetworkError) '' '' =
     [SetError Null, SetLoading True, AxiosGet ''http://127.0.0.1:8000/analyze/ '' None,
      SetError (Str ''An error occurred.''), SetLoading False]"
  by (simp add: spec_blank_ticker_def handler_defs js_or_def)

text \<open>
  Claim C10. With an empty ticker an invocation changes the \<^verbatim>\<open>error\<close> cell only: ticker,
  analysis and loading keep their values, so the analysis part of the page is what it
  was.
\<close>

theorem validation_changes_error_only:
  assumes "ticker s = []"
  shows "analyze net s = s\<lparr>error := Str ''Please enter a stock ticker.''\<rparr>
    \<and> ticker (analyze net s) = ticker s
    \<and> analysis (analyze net s) = analysis s
    \<and> loading (analyze net s) = loading s
    \<and> analysis_view (ticker (analyze net s)) (analysis (analyze net s))
        = analysis_view (ticker s) (analysis s)"
  using assms by (simp add: handler_defs)

theorem validation_changes_error_only_witness:
  "analyze (\<lambda>url. NetworkError)
     \<lparr>ticker = [], analysis = example_body, error = Null, loading = False\<rparr>
   = \<lparr>ticker = [], analysis = example_body,
       error = Str ''Please enter a stock ticker.'', loading = False\<rparr>"
  using validation_changes_error_only
    [of "\<lparr>ticker = [], analysis = example_body, error = Null, loading = False\<rparr>"
        "\<lambda>url. NetworkError"]
  by simp

section \<open>The request path\<close>

text \<open>
  Claim C2. For a non-empty ticker an invocation first calls \<^verbatim>\<open>setError(null)\<close>, then
  \<^verbatim>\<open>setLoading(true)\<close>, then \<^verbatim>\<open>axios.get\<close> with the URL
  \<^verbatim>\<open>http://127.0.0.1:8000/analyze/\<close> followed by the ticker and with no configuration;
  this is the only request of the invocation. When the response has a 2xx status, what
  follows is \<^verbatim>\<open>setAnalysis\<close> with the response body and \<^verbatim>\<open>setLoading(false)\<close>, so the
  analysis is the body and the error stays null.
\<close>

theorem request_then_success:
  assumes "t \<noteq> []"
  shows "take 3 (handleAnalyze net t) =
           [SetError Null, SetLoading True,
            AxiosGet (''http://127.0.0.1:8000/analyze/'' @ t) None]
       \<and> length (filter is_request (handleAnalyze net t)) = 1
       \<and> (\<forall>st d. net (''http://127.0.0.1:8000/analyze/'' @ t) = HttpResponse st d
              \<and> 200 \<le> st \<and> st < 300 \<longrightarrow>
            handleAnalyze net t =
              [SetError Null, SetLoading True,
               AxiosGet (''http://127.0.0.1:8000/analyze/'' @ t) None,
               SetAnalysis d, SetLoading False]
            \<and> (ticker s = t \<longrightarrow>
                 analyze net s = s\<lparr>analysis := d, error := Null, loading := False\<rparr>))"
proof -
  note h = handleAnalyze_nonempty [OF assms, of net]
  have a: "take 3 (handleAnalyze net t) =
           [SetError Null, SetLoading True,
            AxiosGet (''http://127.0.0.1:8000/analyze/'' @ t) None]"
    by (simp add: h)
  have b: "length (filter is_request (handleAnalyze net t)) = 1"
    by (simp add: h resume_no_request split: option.splits)
  have c: "handleAnalyze net t =
              [SetError Null, SetLoading True,
               AxiosGet (''http://127.0.0.1:8000/analyze/'' @ t) None,
               SetAnalysis d, SetLoading False]
            \<and> (ticker s = t \<longrightarrow>
                 analyze net s = s\<lparr>analysis := d, error := Null, loading := False\<rparr>)"
    if "net (''http://127.0.0.1:8000/analyze/'' @ t) = HttpResponse st d"
      and "200 \<le> st" and "st < 300"
    for st d
    using that by (auto simp: h analyze_def exec_def)
  from a b c show ?thesis by blast
qed

theorem request_then_success_witness:
  "''AAPL'' \<noteq> []
   \<and> handleAnalyze (\<lambda>url. HttpResponse 200 (Obj [(''plot'', Str ''QUJD'')])) ''AAPL'' =
       [SetError Null, SetLoading True, AxiosGet ''http://127.0.0.1:8000/analyze/AAPL'' None,
        SetAnalysis (Obj [(''plot'', Str ''QUJD'')]), SetLoading False]
   \<and> analyze (\<lambda>url. HttpResponse 200 (Obj [(''plot'', Str ''QUJD'')]))
        \<lparr>ticker = ''AAPL'', analysis = Null, error = Str ''An error occurred.'',
           loading = False\<rparr>
       = \<lparr>ticker = ''AAPL'', analysis = Obj [(''plot'', Str ''QUJD'')], error = Null,
           loading = False\<rparr>"
  using request_then_success
    [of "''AAPL''" "\<lambda>url. HttpResponse 200 (Obj [(''plot'', Str ''QUJD'')])"
        "\<lparr>ticker = ''AAPL'', analysis = Null, error = Str ''An error occurred.'',
           loading = False\<rparr>"]
  by simp

text \<open>
  Claim C6, amended. For a 2xx response whose body lacks the expected shape the
  invocation takes the success path all the same: the body becomes the new analysis and
  the error stays null, the only call of \<^verbatim>\<open>setError\<close> being the one that cleared it. The
  handler never inspects the body.
\<close>

theorem unexpected_body_accepted:
  assumes "ticker s \<noteq> []"
    and "net (analyze_url (ticker s)) = HttpResponse st d"
    and "200 \<le> st" and "st < 300"
    and "\<not> spec_expected_shape d"
  shows "analysis (analyze net s) = d \<and> error (analyze net s) = Null
         \<and> filter sets_error (handleAnalyze net (ticker s)) = [SetError Null]"
  using assms by (simp add: handler_defs)

theorem unexpected_body_accepted_witness:
  "\<not> spec_expected_shape (Str ''<html>oops</html>'')
   \<and> analysis (analyze (\<lambda>url. HttpResponse 200 (Str ''<html>oops</html>''))
        \<lparr>ticker = ''AAPL'', analysis = Null, error = Null, loading = False\<rparr>)
      = Str ''<html>oops</html>''
   \<and> error (analyze (\<lambda>url. HttpResponse 200 (Str ''<html>oops</html>''))
        \<lparr>ticker = ''AAPL'', analysis = Null, error = Null, loading = False\<rparr>) = Null"
  using unexpected_body_accepted
    [of "\<lparr>ticker = ''AAPL'', analysis = Null, error = Null, loading = False\<rparr>"
        "\<lambda>url. HttpResponse 200 (Str ''<html>oops</html>'')" 200 "Str ''<html>oops</html>''"]
  by simp

text \<open>
  As stated the claim fails: a 200 response with the body
  \<^verbatim>\<open>{ error: "Ticker not found" }\<close> is stored as the analysis, and no error is set.
\<close>

theorem unexpected_body_not_an_error:
  "\<not> spec_expected_shape (Obj [(''error'', Str ''Ticker not found'')])
   \<and> analyze (\<lambda>url. HttpResponse 200 (Obj [(''error'', Str ''Ticker not found'')]))
        \<lparr>ticker = ''AAPL'', analysis = Null, error = Null, loading = False\<rparr>
      = \<lparr>ticker = ''AAPL'', analysis = Obj [(''error'', Str ''Ticker not found'')],
          error = Null, loading = False\<rparr>"
  by (simp add: handler_defs)

section \<open>The failure path\<close>

text \<open>
  Claim C3, amended. For a rejected request the error cell, and the text of the error
  paragraph, is the value at \<^verbatim>\<open>response.data.error\<close> when that value is truthy, in
  particular a non-empty string such as \<^verbatim>\<open>Ticker not found\<close>; it is the fallback
  \<^verbatim>\<open>An error occurred.\<close> when that value is falsy or absent, which is the case when there
  is no response or the body was not parsed.
\<close>

theorem rejected_request_error_text:
  assumes "ticker s \<noteq> []"
    and "axios_get (net (analyze_url (ticker s))) = Some (Rejected e)"
  shows "(truthy (error_field e) \<longrightarrow> error (analyze net s) = error_field e)
    \<and> (\<forall>m. error_field e = Str m \<and> m \<noteq> [] \<longrightarrow>
          render_dom (error_view (error (analyze net s)))
            = Inr [Element ''p'' [(''className'', PStr ''error'')] [Text m]])
    \<and> (\<not> truthy (error_field e) \<longrightarrow>
          error (analyze net s) = Str ''An error occurred.''
          \<and> render_dom (error_view (error (analyze net s)))
            = Inr [Element ''p'' [(''className'', PStr ''error'')]
                    [Text ''An error occurred.'']])
    \<and> (e = None \<or> (\<exists>r raw. e = Some r \<and> data r = Str raw)
          \<longrightarrow> \<not> truthy (error_field e))"
proof -
  have "error (analyze net s) = js_or (error_field e) (Str ''An error occurred.'')"
    using assms by (simp add: handler_defs)
  then show ?thesis
    by (auto simp: js_or_def error_view_def bind_err_def)
qed

theorem rejected_request_error_text_witness:
  "error (analyze (\<lambda>url. HttpResponse 404 (Obj [(''error'', Str ''Ticker not found'')]))
        (initial_state\<lparr>ticker := ''AAPL''\<rparr>)) = Str ''Ticker not found''
   \<and> render_dom (error_view (error
        (analyze (\<lambda>url. HttpResponse 404 (Obj [(''error'', Str ''Ticker not found'')]))
           (initial_state\<lparr>ticker := ''AAPL''\<rparr>))))
      = Inr [Element ''p'' [(''className'', PStr ''error'')] [Text ''Ticker not found'']]
   \<and> error (analyze (\<lambda>url. NetworkError) (initial_state\<lparr>ticker := ''AAPL''\<rparr>))
      = Str ''An error occurred.''"
  using rejected_request_error_text
      [of "initial_state\<lparr>ticker := ''AAPL''\<rparr>"
        "\<lambda>url. HttpResponse 404 (Obj [(''error'', Str ''Ticker not found'')])"
        "Some \<lparr>status = 404, data = Obj [(''error'', Str ''Ticker not found'')]\<rparr>"]
    rejected_request_error_text
      [of "initial_state\<lparr>ticker := ''AAPL''\<rparr>" "\<lambda>url. NetworkError" None]
  by (simp add: initial_state_def error_view_def bind_err_def)

text \<open>
  As stated the claim fails when the error field is present and empty: the text shown is
  the fallback, not the field.
\<close>

theorem empty_error_field_not_displayed:
  "opt_prop (Obj [(''error'', Str [])]) ''error'' = Str []
   \<and> error (analyze (\<lambda>url. HttpResponse 404 (Obj [(''error'', Str [])]))
        (initial_state\<lparr>ticker := ''AAPL''\<rparr>)) = Str ''An error occurred.''
   \<and> render_dom (error_view (error
        (analyze (\<lambda>url. HttpResponse 404 (Obj [(''error'', Str [])]))
           (initial_state\<lparr>ticker := ''AAPL''\<rparr>))))
      = Inr [Element ''p'' [(''className'', PStr ''error'')] [Text ''An error occurred.'']]"
  by (simp add: handler_defs initial_state_def js_or_def error_view_def bind_err_def)

text \<open>
  Claim C9. When the body of a non-2xx response has an \<^verbatim>\<open>error\<close> field whose value is
  falsy (the empty string, 0, false, null), the error shown is the fallback
  \<^verbatim>\<open>An error occurred.\<close>: the choice is by truthiness, not by presence.
\<close>

theorem falsy_error_field_falls_back:
  assumes "ticker s \<noteq> []"
    and "net (analyze_url (ticker s)) = HttpResponse st (Obj kvs)"
    and "\<not> (200 \<le> st \<and> st < 300)"
    and "map_of kvs ''error'' = Some v"
    and "\<not> truthy v"
  shows "error (analyze net s) = Str ''An error occurred.''
       \<and> render_dom (error_view (error (analyze net s)))
           = Inr [Element ''p'' [(''className'', PStr ''error'')]
                   [Text ''An error occurred.'']]"
  using assms by (auto simp: handler_defs js_or_def error_view_def bind_err_def)

theorem falsy_error_field_falls_back_witness:
  "map_of [(''error'', Str [])] ''error'' = Some (Str [])
   \<and> error (analyze (\<lambda>url. HttpResponse 404 (Obj [(''error'', Str [])]))
        \<lparr>ticker = ''AAPL'', analysis = Null, error = Null, loading = False\<rparr>)
      = Str ''An error occurred.''"
  using falsy_error_field_falls_back
    [of "\<lparr>ticker = ''AAPL'', analysis = Null, error = Null, loading = False\<rparr>"
        "\<lambda>url. HttpResponse 404 (Obj [(''error'', Str [])])" 404 "[(''error'', Str [])]"
        "Str []"]
  by simp

text \<open>
  Claim C4. An invocation that fails, at validation or because the request is rejected,
  leaves the analysis as it was and leaves an error to show; a stale analysis can so
  stand beside a new error. The analysis changes only when the request is fulfilled, and
  then to the response body.
\<close>

theorem failure_keeps_analysis:
  "(ticker s = [] \<or> axios_get (net (analyze_url (ticker s))) = Some (Rejected e)
      \<longrightarrow> analysis (analyze net s) = analysis s \<and> truthy (error (analyze net s)))
   \<and> (analysis (analyze net s) \<noteq> analysis s
      \<longrightarrow> ticker s \<noteq> []
          \<and> (\<exists>r. axios_get (net (analyze_url (ticker s))) = Some (Fulfilled r)
                 \<and> analysis (analyze net s) = data r))"
proof -
  have a: "analysis (analyze net s) = analysis s \<and> truthy (error (analyze net s))"
    if "ticker s = [] \<or> axios_get (net (analyze_url (ticker s))) = Some (Rejected e)"
    using that by (cases "ticker s = []") (auto simp: handler_defs js_or_def)
  have b: "ticker s \<noteq> []
          \<and> (\<exists>r. axios_get (net (analyze_url (ticker s))) = Some (Fulfilled r)
                 \<and> analysis (analyze net s) = data r)"
    if "analysis (analyze net s) \<noteq> analysis s"
    using that unfolding analysis_after
    by (auto split: if_splits option.splits settled.splits)
  from a b show ?thesis by blast
qed

theorem failure_keeps_analysis_witness:
  "analysis (analyze (\<lambda>url. HttpResponse 500 (Str ''Internal Server Error'')) example_state)
     = example_body
   \<and> error (analyze (\<lambda>url. HttpResponse 500 (Str ''Internal Server Error'')) example_state)
     = Str ''An error occurred.''
   \<and> analysis (analyze (\<lambda>url. HttpResponse 200 (Obj [])) example_state) = Obj []"
  using failure_keeps_analysis
      [of example_state "\<lambda>url. HttpResponse 500 (Str ''Internal Server Error'')"
          "Some \<lparr>status = 500, data = Str ''Internal Server Error''\<rparr>"]
    failure_keeps_analysis
      [of example_state "\<lambda>url. HttpResponse 200 (Obj [])" None]
  by (simp add: example_state_eq handler_defs js_or_def example_body_def)

section \<open>The loading flag\<close>

text \<open>
  Claim C5. After any sequence of edits, clicks and settlements on the fresh page,
  \<^verbatim>\<open>loading\<close> is true exactly when a request is in flight. Within one invocation that
  passes validation, \<^verbatim>\<open>setLoading(true)\<close> directly follows \<^verbatim>\<open>setError(null)\<close> and precedes
  the request, the flag stays true until the last call of the invocation, and that call
  is \<^verbatim>\<open>setLoading(false)\<close> on the success path and on the failure path alike; while the
  transport has not answered the flag stays true.
\<close>

theorem loading_tracks_request:
  "loading (fst (ui_run evs)) = (snd (ui_run evs) \<noteq> None)
   \<and> (t \<noteq> [] \<longrightarrow>
        map loading (states_along s (handleAnalyze net t)) =
          (case axios_get (net (analyze_url t)) of
             None \<Rightarrow> [loading s, True, True]
           | Some r \<Rightarrow> [loading s, True, True, True, False]))
   \<and> last (handleAnalyze_resume r) = SetLoading False
   \<and> loading (exec s (handleAnalyze_resume r)) = False"
proof -
  have a: "loading (fst (ui_run evs)) = (snd (ui_run evs) \<noteq> None)"
    unfolding ui_run_def by (rule ui_run_invariant) (simp add: initial_state_def)
  have b: "map loading (states_along s (handleAnalyze net t)) =
          (case axios_get (net (analyze_url t)) of
             None \<Rightarrow> [loading s, True, True]
           | Some r \<Rightarrow> [loading s, True, True, True, False])" if "t \<noteq> []"
  proof (cases "axios_get (net (analyze_url t))")
    case None
    with that show ?thesis by (simp add: handleAnalyze_nonempty analyze_url_def)
  next
    case (Some r')
    with that show ?thesis
      by (cases r') (simp_all add: handleAnalyze_nonempty analyze_url_def)
  qed
  have c: "last (handleAnalyze_resume r) = SetLoading False" by (cases r) simp_all
  from a b c resume_loading show ?thesis by blast
qed

theorem loading_tracks_request_witness:
  "ui_run [Change ''AAPL'', Click] =
     (\<lparr>ticker = ''AAPL'', analysis = Null, error = Null, loading = True\<rparr>,
      Some ''http://127.0.0.1:8000/analyze/AAPL'')
   \<and> loading (fst (ui_run [Change ''AAPL'', Click, Settle (Rejected None)])) = False
   \<and> snd (ui_run [Change ''AAPL'', Click, Settle (Rejected None)]) = None
   \<and> map loading (states_along initial_state (handleAnalyze (\<lambda>url. NetworkError) ''AAPL''))
       = [False, True, True, True, False]"
  using loading_tracks_request
      [of "[Change ''AAPL'', Click]" "''AAPL''" initial_state "\<lambda>url. NetworkError"
          "Rejected None"]
    loading_tracks_request
      [of "[Change ''AAPL'', Click, Settle (Rejected None)]" "''AAPL''" initial_state
          "\<lambda>url. NetworkError" "Rejected None"]
  by (simp add: ui_run_def handler_defs initial_state_def js_or_def)

section \<open>The rendered page\<close>

text \<open>
  Claim C7. For the specification's example (the ticker \<^verbatim>\<open>RELIANCE.NS\<close> and the success
  body with the metric \<^verbatim>\<open>volatility\<close> 0.23, the risk category \<^verbatim>\<open>High\<close> and the plot
  \<^verbatim>\<open>iVBORw0KG...\<close>) the page renders, with one heading reading
  \<^verbatim>\<open>Risk Analysis for RELIANCE.NS\<close>, one list item reading \<^verbatim>\<open>volatility: 0.23\<close>, a paragraph
  with the text \<^verbatim>\<open>High\<close>, and one image whose source is
  \<^verbatim>\<open>data:image/png;base64,iVBORw0KG...\<close>; the metrics are listed in the order of the
  received object.
\<close>

theorem render_example:
  "\<exists>ns. render example_state = Inr ns
     \<and> map text_content (elements_by_tag_in ''h2'' ns) = [''Risk Analysis for RELIANCE.NS'']
     \<and> map text_content (elements_by_tag_in ''li'' ns) = [''volatility: 0.23'']
     \<and> map text_content (elements_by_tag_in ''p'' ns) = [''Risk Category: High'']
     \<and> map (prop_of ''src'') (elements_by_tag_in ''img'' ns)
         = [Some (PStr ''data:image/png;base64,iVBORw0KG...'')]
     \<and> object_entries (Obj [(''volatility'', Num ''0.23'')])
         = Inr [(''volatility'', Num ''0.23'')]"
  unfolding example_render by (simp add: entries_defs)

text \<open>
  Claim C8. When the request for a non-empty ticker is fulfilled, a second invocation with
  the same ticker and the same response leaves the state where the first one left it, so
  the page rendered after the second is the page rendered after the first.
\<close>

theorem repeat_success_idempotent:
  assumes "ticker s \<noteq> []"
    and "axios_get (net (analyze_url (ticker s))) = Some (Fulfilled r)"
  shows "analyze net (analyze net s) = analyze net s
       \<and> render (analyze net (analyze net s)) = render (analyze net s)"
proof -
  have a: "analyze net s = s\<lparr>analysis := data r, error := Null, loading := False\<rparr>"
    using assms by (simp add: handler_defs)
  have "analyze net (analyze net s) = analyze net s"
    using assms by (simp add: a) (simp add: handler_defs)
  then show ?thesis by simp
qed

theorem repeat_success_idempotent_witness:
  "analyze (\<lambda>url. HttpResponse 200 example_body)
     (analyze (\<lambda>url. HttpResponse 200 example_body)
        \<lparr>ticker = ''RELIANCE.NS'', analysis = Null, error = Str ''An error occurred.'',
           loading = False\<rparr>)
   = \<lparr>ticker = ''RELIANCE.NS'', analysis = example_body, error = Null, loading = False\<rparr>
   \<and> analyze (\<lambda>url. HttpResponse 200 example_body)
        \<lparr>ticker = ''RELIANCE.NS'', analysis = Null, error = Str ''An error occurred.'',
           loading = False\<rparr>
   = \<lparr>ticker = ''RELIANCE.NS'', analysis = example_body, error = Null, loading = False\<rparr>"
  using repeat_success_idempotent
    [of "\<lparr>ticker = ''RELIANCE.NS'', analysis = Null, error = Str ''An error occurred.'',
           loading = False\<rparr>"
        "\<lambda>url. HttpResponse 200 example_body"
        "\<lparr>status = 200, data = example_body\<rparr>"]
  by (simp add: handler_defs)

end
